theory Spec2Isabelle
  imports Complex_Main
begin

section \<open>The MIDAS grain-file reader \<^verbatim>\<open>hedm/midas/io.py\<close>\<close>

text \<open>
  The module has three classes: \<^verbatim>\<open>LatticeParameters_\<close> (six optional lengths and
  angles with defaulting accessors), \<^verbatim>\<open>Grain_\<close> (one table row) and \<^verbatim>\<open>Grains\<close>
  (the header of the file and the list of its grains, filled by \<^verbatim>\<open>parse\<close>).
  Isabelle does not admit a name that ends in an underscore, so the attribute
  \<^verbatim>\<open>a_\<close> is the field \<open>a_attr\<close>, \<^verbatim>\<open>numGrains_\<close> is \<open>numGrains_attr\<close>, and the
  classes \<^verbatim>\<open>LatticeParameters_\<close> and \<^verbatim>\<open>Grain_\<close> are the records
  \<open>LatticeParameters\<close> and \<open>Grain\<close>.
\<close>

subsection \<open>Exceptions and the library the module calls\<close>

text \<open>
  Every exception the module can end with is a value. \<open>IOError\<close> carries its message;
  \<open>KeyError\<close> carries the missing column; \<open>LibraryError\<close> stands for whatever the table
  reader of pandas raises.
\<close>

datatype error =
    IOError string
  | TypeError
  | ValueError
  | IndexError
  | KeyError string
  | AttributeError
  | LibraryError string

text \<open>
  The module computes with Python floats and with the cells of a pandas table, and it
  calls \<^verbatim>\<open>float\<close>, \<^verbatim>\<open>int\<close>, \<^verbatim>\<open>numpy.isclose\<close> and \<^verbatim>\<open>pandas.read_table\<close> on them. None
  of these is code of the repository: floats are the type \<open>'f\<close>, table cells the type
  \<open>'c\<close>, and the library functions are the fields of one record that every operation
  takes as its first argument.
  \<^item> \<open>float_str\<close>, \<open>int_str\<close>: \<^verbatim>\<open>float(s)\<close> and \<^verbatim>\<open>int(s)\<close> for a string \<open>s\<close>;
  \<^item> \<open>float_cell\<close>, \<open>int_cell\<close>: \<^verbatim>\<open>float(v)\<close> and \<^verbatim>\<open>int(v)\<close> for a table cell \<open>v\<close>;
  \<^item> \<open>isclose\<close>: \<^verbatim>\<open>numpy.isclose(x, y)\<close> for two floats;
  \<^item> \<open>cell_isclose\<close>: \<^verbatim>\<open>numpy.isclose(v, w)\<close> for two table cells;
  \<^item> \<open>read_table\<close>: \<^verbatim>\<open>pandas.read_table(text, skiprows=8, index_col=False)\<close>, the rows
    in file order, each row a map from column name to cell.
\<close>

record ('f, 'c) library =
  float_str :: "string \<Rightarrow> error + 'f"
  int_str :: "string \<Rightarrow> error + int"
  float_cell :: "'c \<Rightarrow> error + 'f"
  int_cell :: "'c \<Rightarrow> error + int"
  isclose :: "'f \<Rightarrow> 'f \<Rightarrow> bool"
  cell_isclose :: "'c \<Rightarrow> 'c \<Rightarrow> error + bool"
  read_table :: "string \<Rightarrow> error + (string \<rightharpoonup> 'c) list"

text \<open>Sequencing of computations that may raise: the first exception wins.\<close>

definition and_then :: "error + 'a \<Rightarrow> ('a \<Rightarrow> error + 'b) \<Rightarrow> error + 'b" where
  "and_then m k = (case m of Inl e \<Rightarrow> Inl e | Inr v \<Rightarrow> k v)"

text \<open>
  Python's \<^verbatim>\<open>x and y\<close> on truth values: \<open>y\<close> is evaluated only when \<open>x\<close> is true, so an
  exception of \<open>y\<close> shows only then.
\<close>

definition py_and :: "error + bool \<Rightarrow> error + bool \<Rightarrow> error + bool" where
  "py_and x y = (case x of Inl e \<Rightarrow> Inl e | Inr b \<Rightarrow> if b then y else Inr False)"

text \<open>
  \<^verbatim>\<open>numpy.isclose\<close> on two attribute values, each a float or \<^verbatim>\<open>None\<close>: on floats it is
  the library's tolerance test; on \<^verbatim>\<open>None\<close> numpy raises \<^verbatim>\<open>TypeError\<close> (it has no
  arithmetic on \<^verbatim>\<open>NoneType\<close>).
\<close>

definition np_isclose :: "('x \<Rightarrow> 'x \<Rightarrow> error + bool) \<Rightarrow> 'x option \<Rightarrow> 'x option \<Rightarrow> error + bool" where
  "np_isclose close x y =
     (case x of None \<Rightarrow> Inl TypeError
      | Some u \<Rightarrow> (case y of None \<Rightarrow> Inl TypeError | Some v \<Rightarrow> close u v))"

subsection \<open>\<^verbatim>\<open>LatticeParameters_\<close>\<close>

text \<open>
  An instance has the attribute \<^verbatim>\<open>a_\<close> only after the setter of \<^verbatim>\<open>a\<close> ran, and the
  setter stores \<^verbatim>\<open>float(value)\<close>: each field is \<open>None\<close> while the attribute is absent
  and \<open>Some\<close> float afterwards.
\<close>

record 'f LatticeParameters =
  a_attr :: "'f option"
  b_attr :: "'f option"
  c_attr :: "'f option"
  alpha_attr :: "'f option"
  beta_attr :: "'f option"
  gamma_attr :: "'f option"

text \<open>The instance before \<^verbatim>\<open>__init__\<close> has set anything.\<close>

definition LatticeParameters_new :: "'f LatticeParameters" where
  "LatticeParameters_new =
     \<lparr>a_attr = None, b_attr = None, c_attr = None,
      alpha_attr = None, beta_attr = None, gamma_attr = None\<rparr>"

text \<open>
  The properties. A read returns a float or Python's \<^verbatim>\<open>None\<close>, here \<open>None\<close>:
  \<^verbatim>\<open>getattr(self, "b_", self.a)\<close> is the stored value when there is one and the value of
  the property \<^verbatim>\<open>a\<close> at the time of the read otherwise.
\<close>

definition get_a :: "'f LatticeParameters \<Rightarrow> 'f option" where
  "get_a self = (case a_attr self of Some v \<Rightarrow> Some v | None \<Rightarrow> None)"

definition get_b :: "'f LatticeParameters \<Rightarrow> 'f option" where
  "get_b self = (case b_attr self of Some v \<Rightarrow> Some v | None \<Rightarrow> get_a self)"

definition get_c :: "'f LatticeParameters \<Rightarrow> 'f option" where
  "get_c self = (case c_attr self of Some v \<Rightarrow> Some v | None \<Rightarrow> get_a self)"

definition get_alpha :: "'f LatticeParameters \<Rightarrow> 'f option" where
  "get_alpha self = (case alpha_attr self of Some v \<Rightarrow> Some v | None \<Rightarrow> None)"

definition get_beta :: "'f LatticeParameters \<Rightarrow> 'f option" where
  "get_beta self = (case beta_attr self of Some v \<Rightarrow> Some v | None \<Rightarrow> get_alpha self)"

definition get_gamma :: "'f LatticeParameters \<Rightarrow> 'f option" where
  "get_gamma self = (case gamma_attr self of Some v \<Rightarrow> Some v | None \<Rightarrow> get_alpha self)"

text \<open>
  The setters store \<^verbatim>\<open>float(value)\<close>; \<open>conv\<close> is \<^verbatim>\<open>float\<close> on the type of the value
  given (a string in \<^verbatim>\<open>Grains.parse\<close>, a table cell in \<^verbatim>\<open>Grain_.from_Series\<close>). When
  \<^verbatim>\<open>float\<close> raises, nothing is stored.
\<close>

definition set_a :: "('x \<Rightarrow> error + 'f) \<Rightarrow> 'x \<Rightarrow> 'f LatticeParameters \<Rightarrow> error + 'f LatticeParameters" where
  "set_a conv value self = and_then (conv value) (\<lambda>v. Inr (self\<lparr>a_attr := Some v\<rparr>))"

definition set_b :: "('x \<Rightarrow> error + 'f) \<Rightarrow> 'x \<Rightarrow> 'f LatticeParameters \<Rightarrow> error + 'f LatticeParameters" where
  "set_b conv value self = and_then (conv value) (\<lambda>v. Inr (self\<lparr>b_attr := Some v\<rparr>))"

definition set_c :: "('x \<Rightarrow> error + 'f) \<Rightarrow> 'x \<Rightarrow> 'f LatticeParameters \<Rightarrow> error + 'f LatticeParameters" where
  "set_c conv value self = and_then (conv value) (\<lambda>v. Inr (self\<lparr>c_attr := Some v\<rparr>))"

definition set_alpha :: "('x \<Rightarrow> error + 'f) \<Rightarrow> 'x \<Rightarrow> 'f LatticeParameters \<Rightarrow> error + 'f LatticeParameters" where
  "set_alpha conv value self = and_then (conv value) (\<lambda>v. Inr (self\<lparr>alpha_attr := Some v\<rparr>))"

definition set_beta :: "('x \<Rightarrow> error + 'f) \<Rightarrow> 'x \<Rightarrow> 'f LatticeParameters \<Rightarrow> error + 'f LatticeParameters" where
  "set_beta conv value self = and_then (conv value) (\<lambda>v. Inr (self\<lparr>beta_attr := Some v\<rparr>))"

definition set_gamma :: "('x \<Rightarrow> error + 'f) \<Rightarrow> 'x \<Rightarrow> 'f LatticeParameters \<Rightarrow> error + 'f LatticeParameters" where
  "set_gamma conv value self = and_then (conv value) (\<lambda>v. Inr (self\<lparr>gamma_attr := Some v\<rparr>))"

text \<open>
  \<^verbatim>\<open>__init__(self, **kwds)\<close>: the keyword arguments are a map from name to value, and
  each of the six names that is present goes through its setter, in the order
  \<^verbatim>\<open>a, b, c, alpha, beta, gamma\<close>.
\<close>

definition init_kwd ::
  "(string \<rightharpoonup> 'x) \<Rightarrow> string \<Rightarrow> ('x \<Rightarrow> 'f LatticeParameters \<Rightarrow> error + 'f LatticeParameters)
     \<Rightarrow> 'f LatticeParameters \<Rightarrow> error + 'f LatticeParameters" where
  "init_kwd kwds name setter self =
     (case kwds name of None \<Rightarrow> Inr self | Some value \<Rightarrow> setter value self)"

definition LatticeParameters_init ::
  "('x \<Rightarrow> error + 'f) \<Rightarrow> (string \<rightharpoonup> 'x) \<Rightarrow> error + 'f LatticeParameters" where
  "LatticeParameters_init conv kwds =
     and_then (init_kwd kwds ''a'' (set_a conv) LatticeParameters_new) (\<lambda>s1.
     and_then (init_kwd kwds ''b'' (set_b conv) s1) (\<lambda>s2.
     and_then (init_kwd kwds ''c'' (set_c conv) s2) (\<lambda>s3.
     and_then (init_kwd kwds ''alpha'' (set_alpha conv) s3) (\<lambda>s4.
     and_then (init_kwd kwds ''beta'' (set_beta conv) s4) (\<lambda>s5.
     init_kwd kwds ''gamma'' (set_gamma conv) s5)))))"

text \<open>
  \<^verbatim>\<open>__eq__\<close>: the six properties of both sides, compared with \<^verbatim>\<open>numpy.isclose\<close> and
  joined by \<^verbatim>\<open>and\<close>, in the order \<^verbatim>\<open>a, b, c, alpha, beta, gamma\<close>.
\<close>

definition LatticeParameters_eq ::
  "('f \<Rightarrow> 'f \<Rightarrow> bool) \<Rightarrow> 'f LatticeParameters \<Rightarrow> 'f LatticeParameters \<Rightarrow> error + bool" where
  "LatticeParameters_eq close self rhs =
     py_and (np_isclose (\<lambda>x y. Inr (close x y)) (get_a self) (get_a rhs))
    (py_and (np_isclose (\<lambda>x y. Inr (close x y)) (get_b self) (get_b rhs))
    (py_and (np_isclose (\<lambda>x y. Inr (close x y)) (get_c self) (get_c rhs))
    (py_and (np_isclose (\<lambda>x y. Inr (close x y)) (get_alpha self) (get_alpha rhs))
    (py_and (np_isclose (\<lambda>x y. Inr (close x y)) (get_beta self) (get_beta rhs))
            (np_isclose (\<lambda>x y. Inr (close x y)) (get_gamma self) (get_gamma rhs))))))"

subsection \<open>Lists, strings and table rows as Python handles them\<close>

text \<open>
  A string is a list of characters, each a code point below 256. \<^verbatim>\<open>str.isspace\<close> is
  true of these twelve of them.
\<close>

definition is_space :: "char \<Rightarrow> bool" where
  "is_space ch \<longleftrightarrow>
     ch \<in> set [CHR 0x09, CHR 0x0A, CHR 0x0B, CHR 0x0C, CHR 0x0D, CHR 0x1C, CHR 0x1D,
               CHR 0x1E, CHR 0x1F, CHR 0x20, CHR 0x85, CHR 0xA0]"

text \<open>\<^verbatim>\<open>s.strip()\<close>: white space removed at both ends.\<close>

definition strip :: "string \<Rightarrow> string" where
  "strip s = rev (dropWhile is_space (rev (dropWhile is_space s)))"

text \<open>
  \<^verbatim>\<open>s.split()\<close>: the maximal runs of characters that are not white space; \<open>cur\<close> is
  the run being read.
\<close>

fun split_run :: "string \<Rightarrow> string \<Rightarrow> string list" where
  "split_run cur [] = (if cur = [] then [] else [cur])"
| "split_run cur (ch # s) =
     (if is_space ch then (if cur = [] then split_run [] s else cur # split_run [] s)
      else split_run (cur @ [ch]) s)"

definition split_ws :: "string \<Rightarrow> string list" where
  "split_ws s = split_run [] s"

text \<open>
  \<^verbatim>\<open>s.split(sep)\<close> for a separator of one character: every occurrence cuts, so two
  separators in a row give an empty piece and the result is never empty.
\<close>

fun split_on :: "char \<Rightarrow> string \<Rightarrow> string list" where
  "split_on sep [] = [[]]"
| "split_on sep (ch # s) =
     (if ch = sep then [] # split_on sep s
      else (case split_on sep s of [] \<Rightarrow> [[ch]] | piece # pieces \<Rightarrow> (ch # piece) # pieces))"

text \<open>\<^verbatim>\<open>readlines()\<close>: the lines of a text, each with its newline when it has one.\<close>

fun readlines :: "string \<Rightarrow> string list" where
  "readlines [] = []"
| "readlines (ch # s) =
     (if ch = CHR 0x0A then [ch] # readlines s
      else (case readlines s of [] \<Rightarrow> [[ch]] | line # lines \<Rightarrow> (ch # line) # lines))"

text \<open>\<^verbatim>\<open>xs[i]\<close> raises \<^verbatim>\<open>IndexError\<close> past the end.\<close>

definition item :: "'a list \<Rightarrow> nat \<Rightarrow> error + 'a" where
  "item xs i = (if i < length xs then Inr (xs ! i) else Inl IndexError)"

text \<open>
  \<^verbatim>\<open>key, value = xs\<close> and \<^verbatim>\<open>a, b, c, alpha, beta, gamma = xs\<close> raise \<^verbatim>\<open>ValueError\<close>
  unless the list has exactly that many items.
\<close>

definition unpack2 :: "'a list \<Rightarrow> error + 'a \<times> 'a" where
  "unpack2 xs = (case xs of [x, y] \<Rightarrow> Inr (x, y) | _ \<Rightarrow> Inl ValueError)"

definition unpack6 :: "'a list \<Rightarrow> error + 'a list" where
  "unpack6 xs = (if length xs = 6 then Inr xs else Inl ValueError)"

text \<open>\<^verbatim>\<open>str(n)\<close> of an integer, for the message of the count check.\<close>

definition digit_char :: "nat \<Rightarrow> char" where
  "digit_char d = (''0123456789'' ! d)"

function str_nat :: "nat \<Rightarrow> string" where
  "str_nat n = (if n < 10 then [digit_char n] else str_nat (n div 10) @ [digit_char (n mod 10)])"
  by pat_completeness auto
termination
  by (relation "measure id") auto

definition str_int :: "int \<Rightarrow> string" where
  "str_int i = (if i < 0 then CHR ''-'' # str_nat (nat (- i)) else str_nat (nat i))"

text \<open>
  A row of the table (a pandas \<^verbatim>\<open>Series\<close>) is a map from column name to cell.
  \<^verbatim>\<open>series[name]\<close> raises \<^verbatim>\<open>KeyError\<close> for a missing column; \<^verbatim>\<open>series[[n1, ...]]\<close>
  gives the cells of the columns named, in that order, and raises \<^verbatim>\<open>KeyError\<close> when
  one is missing (here with the first missing name).
\<close>

definition getitem :: "(string \<rightharpoonup> 'c) \<Rightarrow> string \<Rightarrow> error + 'c" where
  "getitem series name = (case series name of None \<Rightarrow> Inl (KeyError name) | Some v \<Rightarrow> Inr v)"

fun getitems :: "(string \<rightharpoonup> 'c) \<Rightarrow> string list \<Rightarrow> error + 'c list" where
  "getitems series [] = Inr []"
| "getitems series (name # names) =
     and_then (getitem series name) (\<lambda>v.
     and_then (getitems series names) (\<lambda>vs. Inr (v # vs)))"

text \<open>
  \<^verbatim>\<open>values.reshape((r, c))\<close>: numpy fills the rows one after the other (C order) and
  raises \<^verbatim>\<open>ValueError\<close> when the array has not \<open>r * c\<close> items.
\<close>

primrec rows_of :: "nat \<Rightarrow> nat \<Rightarrow> 'a list \<Rightarrow> 'a list list" where
  "rows_of 0 c xs = []"
| "rows_of (Suc r) c xs = take c xs # rows_of r c (drop c xs)"

definition reshape :: "nat \<Rightarrow> nat \<Rightarrow> 'a list \<Rightarrow> error + 'a list list" where
  "reshape r c xs = (if length xs = r * c then Inr (rows_of r c xs) else Inl ValueError)"

text \<open>
  \<^verbatim>\<open>numpy.allclose(x, y)\<close> is \<^verbatim>\<open>all(isclose(x, y))\<close>: every pair of items is compared
  and the results are joined. \<^verbatim>\<open>None\<close> raises \<^verbatim>\<open>TypeError\<close> as in \<open>np_isclose\<close>.
  Arrays of one shape are compared item by item; numpy's broadcasting of arrays of
  different shapes is not modelled, any difference of shape is \<^verbatim>\<open>ValueError\<close>.
\<close>

fun all_close :: "('x \<Rightarrow> 'x \<Rightarrow> error + bool) \<Rightarrow> 'x list \<Rightarrow> 'x list \<Rightarrow> error + bool" where
  "all_close close [] [] = Inr True"
| "all_close close (x # xs) (y # ys) =
     and_then (close x y) (\<lambda>b.
     and_then (all_close close xs ys) (\<lambda>r. Inr (b \<and> r)))"
| "all_close close _ _ = Inl ValueError"

definition np_allclose :: "('x \<Rightarrow> 'x \<Rightarrow> error + bool) \<Rightarrow> 'x list option \<Rightarrow> 'x list option \<Rightarrow> error + bool" where
  "np_allclose close x y =
     (case x of None \<Rightarrow> Inl TypeError
      | Some us \<Rightarrow> (case y of None \<Rightarrow> Inl TypeError | Some vs \<Rightarrow> all_close close us vs))"

definition np_allclose2 ::
  "('x \<Rightarrow> 'x \<Rightarrow> error + bool) \<Rightarrow> 'x list list option \<Rightarrow> 'x list list option \<Rightarrow> error + bool" where
  "np_allclose2 close x y =
     (case x of None \<Rightarrow> Inl TypeError
      | Some us \<Rightarrow> (case y of None \<Rightarrow> Inl TypeError
                    | Some vs \<Rightarrow> all_close (all_close close) us vs))"

subsection \<open>\<^verbatim>\<open>Grain_\<close>\<close>

text \<open>
  \<^verbatim>\<open>__init__\<close> sets all thirteen attributes to \<^verbatim>\<open>None\<close>. \<^verbatim>\<open>from_Series\<close> stores table
  cells as they are, except the lattice parameters (floats, through the setters) and
  the phase number (\<^verbatim>\<open>int(...)\<close>).
\<close>

record ('f, 'c) Grain =
  ID :: "'c option"
  orientation :: "'c list list option"
  location :: "'c list option"
  latticeParameters :: "'f LatticeParameters option"
  diffPos :: "'c option"
  diffOme :: "'c option"
  diffAngle :: "'c option"
  radius :: "'c option"
  confidence :: "'c option"
  strainFab :: "'c list list option"
  strainKen :: "'c list list option"
  rmsErrorStrain :: "'c option"
  phaseNumber :: "int option"

definition Grain_init :: "('f, 'c) Grain" where
  "Grain_init =
     \<lparr>ID = None, orientation = None, location = None, latticeParameters = None,
      diffPos = None, diffOme = None, diffAngle = None, radius = None, confidence = None,
      strainFab = None, strainKen = None, rmsErrorStrain = None, phaseNumber = None\<rparr>"

text \<open>
  \<^verbatim>\<open>self.latticeParameters == rhs.latticeParameters\<close>: two instances go through
  \<^verbatim>\<open>LatticeParameters_.__eq__\<close>; \<^verbatim>\<open>None == None\<close> is true; an instance against
  \<^verbatim>\<open>None\<close> runs \<^verbatim>\<open>__eq__\<close> of the instance, which reads \<^verbatim>\<open>None.a\<close> and raises
  \<^verbatim>\<open>AttributeError\<close>.
\<close>

definition lattice_equal ::
  "('f \<Rightarrow> 'f \<Rightarrow> bool) \<Rightarrow> 'f LatticeParameters option \<Rightarrow> 'f LatticeParameters option \<Rightarrow> error + bool" where
  "lattice_equal close x y =
     (case x of
        None \<Rightarrow> (case y of None \<Rightarrow> Inr True | Some r \<Rightarrow> Inl AttributeError)
      | Some l \<Rightarrow> (case y of None \<Rightarrow> Inl AttributeError
                   | Some r \<Rightarrow> LatticeParameters_eq close l r))"

text \<open>\<^verbatim>\<open>Grain_.__eq__\<close>, the eleven comparisons of the source in their order.\<close>

definition Grain_eq :: "('f, 'c) library \<Rightarrow> ('f, 'c) Grain \<Rightarrow> ('f, 'c) Grain \<Rightarrow> error + bool" where
  "Grain_eq L self rhs =
     py_and (Inr (ID self = ID rhs))
    (py_and (np_allclose2 (cell_isclose L) (orientation self) (orientation rhs))
    (py_and (np_allclose (cell_isclose L) (location self) (location rhs))
    (py_and (lattice_equal (isclose L) (latticeParameters self) (latticeParameters rhs))
    (py_and (np_isclose (cell_isclose L) (diffPos self) (diffPos rhs))
    (py_and (np_isclose (cell_isclose L) (diffOme self) (diffOme rhs))
    (py_and (np_isclose (cell_isclose L) (diffAngle self) (diffAngle rhs))
    (py_and (np_isclose (cell_isclose L) (radius self) (radius rhs))
    (py_and (np_allclose2 (cell_isclose L) (strainFab self) (strainFab rhs))
    (py_and (np_allclose2 (cell_isclose L) (strainKen self) (strainKen rhs))
            (Inr (phaseNumber self = phaseNumber rhs)))))))))))"

text \<open>The forty-four columns that \<^verbatim>\<open>from_Series\<close> reads, in the order of the table.\<close>

definition column_names :: "string list" where
  "column_names =
     [''GrainID'', ''O11'', ''O12'', ''O13'', ''O21'', ''O22'', ''O23'', ''O31'', ''O32'', ''O33'',
      ''X'', ''Y'', ''Z'', ''a'', ''b'', ''c'', ''alpha'', ''beta'', ''gamma'',
      ''DiffPos'', ''DiffOme'', ''DiffAngle'', ''GrainRadius'', ''Confidence'',
      ''eFab11'', ''eFab12'', ''eFab13'', ''eFab21'', ''eFab22'', ''eFab23'',
      ''eFab31'', ''eFab32'', ''eFab33'',
      ''eKen11'', ''eKen12'', ''eKen13'', ''eKen21'', ''eKen22'', ''eKen23'',
      ''eKen31'', ''eKen32'', ''eKen33'', ''RMSErrorStrain'', ''PhaseNr'']"

text \<open>
  \<^verbatim>\<open>from_Series\<close>. The statements run in the order of the source and the first
  exception ends the call; the keyword arguments of the \<^verbatim>\<open>LatticeParameters_\<close> call
  are all read from the row before the constructor runs. The result is the grain
  with all thirteen attributes assigned. (An exception leaves the grain partly
  assigned; \<^verbatim>\<open>Grains.parse\<close> calls \<^verbatim>\<open>from_Series\<close> on a grain it has just made and
  drops it then, so the model returns the exception alone.)
\<close>

definition from_Series ::
  "('f, 'c) library \<Rightarrow> (string \<rightharpoonup> 'c) \<Rightarrow> ('f, 'c) Grain \<Rightarrow> error + ('f, 'c) Grain" where
  "from_Series L series self =
     and_then (getitem series ''GrainID'') (\<lambda>gid.
     and_then (getitems series [''O11'', ''O12'', ''O13'',
                                ''O21'', ''O22'', ''O23'',
                                ''O31'', ''O32'', ''O33'']) (\<lambda>os.
     and_then (reshape 3 3 os) (\<lambda>orient.
     and_then (getitems series [''X'', ''Y'', ''Z'']) (\<lambda>loc.
     and_then (getitem series ''a'') (\<lambda>a.
     and_then (getitem series ''b'') (\<lambda>b.
     and_then (getitem series ''c'') (\<lambda>c.
     and_then (getitem series ''alpha'') (\<lambda>alpha.
     and_then (getitem series ''beta'') (\<lambda>beta.
     and_then (getitem series ''gamma'') (\<lambda>gamma.
     and_then (LatticeParameters_init (float_cell L)
                 [''a'' \<mapsto> a, ''b'' \<mapsto> b, ''c'' \<mapsto> c,
                  ''alpha'' \<mapsto> alpha, ''beta'' \<mapsto> beta, ''gamma'' \<mapsto> gamma]) (\<lambda>lp.
     and_then (getitem series ''DiffPos'') (\<lambda>dpos.
     and_then (getitem series ''DiffOme'') (\<lambda>dome.
     and_then (getitem series ''DiffAngle'') (\<lambda>dang.
     and_then (getitem series ''GrainRadius'') (\<lambda>rad.
     and_then (getitem series ''Confidence'') (\<lambda>conf.
     and_then (getitems series [''eFab11'', ''eFab12'', ''eFab13'',
                                ''eFab21'', ''eFab22'', ''eFab23'',
                                ''eFab31'', ''eFab32'', ''eFab33'']) (\<lambda>fs.
     and_then (reshape 3 3 fs) (\<lambda>fab.
     and_then (getitems series [''eKen11'', ''eKen12'', ''eKen13'',
                                ''eKen21'', ''eKen22'', ''eKen23'',
                                ''eKen31'', ''eKen32'', ''eKen33'']) (\<lambda>ks.
     and_then (reshape 3 3 ks) (\<lambda>ken.
     and_then (getitem series ''RMSErrorStrain'') (\<lambda>rms.
     and_then (getitem series ''PhaseNr'') (\<lambda>pnr.
     and_then (int_cell L pnr) (\<lambda>phase.
     Inr (self\<lparr>ID := Some gid, orientation := Some orient, location := Some loc,
               latticeParameters := Some lp, diffPos := Some dpos, diffOme := Some dome,
               diffAngle := Some dang, radius := Some rad, confidence := Some conf,
               strainFab := Some fab, strainKen := Some ken, rmsErrorStrain := Some rms,
               phaseNumber := Some phase\<rparr>))))))))))))))))))))))))"

subsection \<open>\<^verbatim>\<open>Grains\<close>\<close>

text \<open>
  \<^verbatim>\<open>__init__\<close> sets the seven header attributes to \<^verbatim>\<open>None\<close> and \<^verbatim>\<open>grains\<close> to the
  empty list.
\<close>

record ('f, 'c) Grains =
  numGrains_attr :: "int option"
  beamCenter_attr :: "'f option"
  beamThickness_attr :: "'f option"
  globalPosition_attr :: "'f option"
  numPhases_attr :: "int option"
  spaceGroup_attr :: "int option"
  latticeParameters_attr :: "'f LatticeParameters option"
  grains :: "('f, 'c) Grain list"

definition Grains_init :: "('f, 'c) Grains" where
  "Grains_init =
     \<lparr>numGrains_attr = None, beamCenter_attr = None, beamThickness_attr = None,
      globalPosition_attr = None, numPhases_attr = None, spaceGroup_attr = None,
      latticeParameters_attr = None, grains = []\<rparr>"

definition NumGrains :: "('f, 'c) Grains \<Rightarrow> int option" where
  "NumGrains self = numGrains_attr self"

text \<open>
  \<^verbatim>\<open>parse\<close> assigns to \<^verbatim>\<open>self\<close> as it goes and may raise in between, so each part of
  it takes the instance and returns what happened (an exception or a normal end)
  together with the instance as it is then. \<open>seq\<close> runs one part after the other and
  stops at an exception.
\<close>

type_synonym ('f, 'c) action = "('f, 'c) Grains \<Rightarrow> (error + unit) \<times> ('f, 'c) Grains"

definition seq :: "('f, 'c) action \<Rightarrow> ('f, 'c) action \<Rightarrow> ('f, 'c) action" where
  "seq m k self = (case m self of (Inl e, s) \<Rightarrow> (Inl e, s) | (Inr u, s) \<Rightarrow> k s)"

text \<open>
  The header lines. Each is split into key and value; the key is compared with the
  expected one and, when it differs, an \<^verbatim>\<open>IOError\<close> is made, which the source does not
  raise: it is the value \<open>unraised\<close>, which nothing uses. Then the value is converted
  and assigned.
\<close>

definition not_valid :: "string \<Rightarrow> error" where
  "not_valid filename = IOError (filename @ '' is not a valid format.'')"

definition header_NumGrains :: "('f, 'c) library \<Rightarrow> string \<Rightarrow> string list \<Rightarrow> ('f, 'c) action" where
  "header_NumGrains L filename header self =
     (case and_then (item header 0) (\<lambda>line. unpack2 (split_ws line)) of
        Inl e \<Rightarrow> (Inl e, self)
      | Inr (key, value) \<Rightarrow>
          (let unraised = (if key \<noteq> ''NumGrains'' then Some (not_valid filename) else None)
           in case int_str L value of
                Inl e \<Rightarrow> (Inl e, self)
              | Inr n \<Rightarrow> (Inr (), self\<lparr>numGrains_attr := Some n\<rparr>)))"

definition header_BeamCenter :: "('f, 'c) library \<Rightarrow> string \<Rightarrow> string list \<Rightarrow> ('f, 'c) action" where
  "header_BeamCenter L filename header self =
     (case and_then (item header 1) (\<lambda>line. unpack2 (split_ws line)) of
        Inl e \<Rightarrow> (Inl e, self)
      | Inr (key, value) \<Rightarrow>
          (let unraised = (if key \<noteq> ''BeamCenter'' then Some (not_valid filename) else None)
           in case float_str L value of
                Inl e \<Rightarrow> (Inl e, self)
              | Inr x \<Rightarrow> (Inr (), self\<lparr>beamCenter_attr := Some x\<rparr>)))"

definition header_BeamThickness :: "('f, 'c) library \<Rightarrow> string \<Rightarrow> string list \<Rightarrow> ('f, 'c) action" where
  "header_BeamThickness L filename header self =
     (case and_then (item header 2) (\<lambda>line. unpack2 (split_ws line)) of
        Inl e \<Rightarrow> (Inl e, self)
      | Inr (key, value) \<Rightarrow>
          (let unraised = (if key \<noteq> ''BeamThickness'' then Some (not_valid filename) else None)
           in case float_str L value of
                Inl e \<Rightarrow> (Inl e, self)
              | Inr x \<Rightarrow> (Inr (), self\<lparr>beamThickness_attr := Some x\<rparr>)))"

definition header_GlobalPosition :: "('f, 'c) library \<Rightarrow> string \<Rightarrow> string list \<Rightarrow> ('f, 'c) action" where
  "header_GlobalPosition L filename header self =
     (case and_then (item header 3) (\<lambda>line. unpack2 (split_ws line)) of
        Inl e \<Rightarrow> (Inl e, self)
      | Inr (key, value) \<Rightarrow>
          (let unraised = (if key \<noteq> ''GlobalPosition'' then Some (not_valid filename) else None)
           in case float_str L value of
                Inl e \<Rightarrow> (Inl e, self)
              | Inr x \<Rightarrow> (Inr (), self\<lparr>globalPosition_attr := Some x\<rparr>)))"

definition header_NumPhases :: "('f, 'c) library \<Rightarrow> string \<Rightarrow> string list \<Rightarrow> ('f, 'c) action" where
  "header_NumPhases L filename header self =
     (case and_then (item header 4) (\<lambda>line. unpack2 (split_ws line)) of
        Inl e \<Rightarrow> (Inl e, self)
      | Inr (key, value) \<Rightarrow>
          (let unraised = (if key \<noteq> ''NumPhases'' then Some (not_valid filename) else None)
           in case int_str L value of
                Inl e \<Rightarrow> (Inl e, self)
              | Inr n \<Rightarrow> (Inr (), self\<lparr>numPhases_attr := Some n\<rparr>)))"

text \<open>Line 6 (\<^verbatim>\<open>header[5]\<close>) is not read: its check is commented out in the source.\<close>

definition header_SpaceGroup :: "('f, 'c) library \<Rightarrow> string \<Rightarrow> string list \<Rightarrow> ('f, 'c) action" where
  "header_SpaceGroup L filename header self =
     (case and_then (item header 6) (\<lambda>line. unpack2 (split_on CHR '':'' line)) of
        Inl e \<Rightarrow> (Inl e, self)
      | Inr (key, value) \<Rightarrow>
          (let unraised = (if key \<noteq> ''SpaceGroup'' then Some (not_valid filename) else None)
           in case int_str L value of
                Inl e \<Rightarrow> (Inl e, self)
              | Inr n \<Rightarrow> (Inr (), self\<lparr>spaceGroup_attr := Some n\<rparr>)))"

definition header_LatticeParameter :: "('f, 'c) library \<Rightarrow> string \<Rightarrow> string list \<Rightarrow> ('f, 'c) action" where
  "header_LatticeParameter L filename header self =
     (case and_then (item header 7) (\<lambda>line. unpack2 (split_on CHR '':'' line)) of
        Inl e \<Rightarrow> (Inl e, self)
      | Inr (key, value) \<Rightarrow>
          (let unraised = (if key \<noteq> ''Lattice Parameter'' then Some (not_valid filename) else None)
           in case and_then (unpack6 (split_on CHR '' '' (strip value))) (\<lambda>vs.
                     LatticeParameters_init (float_str L)
                       [''a'' \<mapsto> vs ! 0, ''b'' \<mapsto> vs ! 1, ''c'' \<mapsto> vs ! 2,
                        ''alpha'' \<mapsto> vs ! 3, ''beta'' \<mapsto> vs ! 4, ''gamma'' \<mapsto> vs ! 5]) of
                Inl e \<Rightarrow> (Inl e, self)
              | Inr lp \<Rightarrow> (Inr (), self\<lparr>latticeParameters_attr := Some lp\<rparr>)))"

text \<open>
  \<^verbatim>\<open>self.grains = [Grain_().from_Series(row) for i, row in table.iterrows()]\<close>: the
  rows in order, each into a new grain; \<^verbatim>\<open>grains\<close> is assigned when all rows are done.
\<close>

fun rows_to_grains :: "('f, 'c) library \<Rightarrow> (string \<rightharpoonup> 'c) list \<Rightarrow> error + ('f, 'c) Grain list" where
  "rows_to_grains L [] = Inr []"
| "rows_to_grains L (row # rows) =
     and_then (from_Series L row Grain_init) (\<lambda>g.
     and_then (rows_to_grains L rows) (\<lambda>gs. Inr (g # gs)))"

definition read_grains :: "('f, 'c) library \<Rightarrow> (string \<rightharpoonup> 'c) list \<Rightarrow> ('f, 'c) action" where
  "read_grains L table self =
     (case rows_to_grains L table of
        Inl e \<Rightarrow> (Inl e, self)
      | Inr gs \<Rightarrow> (Inr (), self\<lparr>grains := gs\<rparr>))"

text \<open>
  The count check. \<^verbatim>\<open>"{}".format(x)\<close> writes an integer in decimal and \<^verbatim>\<open>None\<close> as
  \<^verbatim>\<open>None\<close>.
\<close>

definition format_count :: "int option \<Rightarrow> string" where
  "format_count x = (case x of None \<Rightarrow> ''None'' | Some n \<Rightarrow> str_int n)"

definition count_message :: "int option \<Rightarrow> nat \<Rightarrow> string" where
  "count_message expected actual =
     format_count expected @ '' grains were expected, but only ''
       @ str_int (int actual) @ '' were read.''"

definition verify_integrity :: "('f, 'c) action" where
  "verify_integrity self =
     (if Some (int (length (grains self))) \<noteq> NumGrains self
      then (Inl (IOError (count_message (NumGrains self) (length (grains self)))), self)
      else (Inr (), self))"

text \<open>
  Lines 242 to 288 of the source, on the text without its \<^verbatim>\<open>%\<close> characters: the
  table is read first, then the first eight lines are stripped and parsed one after
  the other, then the grains are made.
\<close>

definition populate :: "('f, 'c) library \<Rightarrow> string \<Rightarrow> string \<Rightarrow> ('f, 'c) action" where
  "populate L filename text self =
     (case read_table L text of
        Inl e \<Rightarrow> (Inl e, self)
      | Inr table \<Rightarrow>
          (let header = map strip (take 8 (readlines text))
           in (seq (header_NumGrains L filename header)
              (seq (header_BeamCenter L filename header)
              (seq (header_BeamThickness L filename header)
              (seq (header_GlobalPosition L filename header)
              (seq (header_NumPhases L filename header)
              (seq (header_SpaceGroup L filename header)
              (seq (header_LatticeParameter L filename header)
                   (read_grains L table)))))))) self))"

text \<open>Lines 242 to 294: the above, then the count check.\<close>

definition parse_text :: "('f, 'c) library \<Rightarrow> string \<Rightarrow> string \<Rightarrow> ('f, 'c) action" where
  "parse_text L filename text = seq (populate L filename text) verify_integrity"

text \<open>\<^verbatim>\<open>ifs.read().replace('%', '')\<close>.\<close>

definition remove_percent :: "string \<Rightarrow> string" where
  "remove_percent s = filter (\<lambda>ch. ch \<noteq> CHR ''%'') s"

text \<open>
  The files: a map from the paths that name a regular file (\<^verbatim>\<open>os.path.isfile\<close>) to
  the text that \<^verbatim>\<open>open(filename).read()\<close> returns for it.
\<close>

type_synonym files = "string \<rightharpoonup> string"

definition parse :: "('f, 'c) library \<Rightarrow> files \<Rightarrow> string \<Rightarrow> ('f, 'c) action" where
  "parse L fs filename self =
     (case fs filename of
        None \<Rightarrow> (Inl (IOError (filename @ '' was not found.'')), self)
      | Some content \<Rightarrow> parse_text L filename (remove_percent content) self)"

subsection \<open>A library instance for running the module on examples\<close>

text \<open>
  To evaluate the operations on concrete files the library must be given. In this
  instance floats and table cells are rational numbers, written in plain decimal
  notation (an optional sign, digits, at most one point); \<^verbatim>\<open>float\<close> and \<^verbatim>\<open>int\<close> of a
  string read that notation and raise \<^verbatim>\<open>ValueError\<close> on anything else, \<^verbatim>\<open>int\<close> of a
  cell truncates towards zero, \<^verbatim>\<open>isclose\<close> is numpy's test
  \<open>\<bar>x - y\<bar> \<le> atol + rtol * \<bar>y\<bar>\<close> with its default tolerances, and the table reader
  takes lines of tab-separated decimal cells under one line of column names. The
  examples stay inside this notation, where Python, numpy and pandas agree with it.
\<close>

definition digit_value :: "char \<Rightarrow> int option" where
  "digit_value ch =
     map_of [(CHR ''0'', 0), (CHR ''1'', 1), (CHR ''2'', 2), (CHR ''3'', 3), (CHR ''4'', 4),
             (CHR ''5'', 5), (CHR ''6'', 6), (CHR ''7'', 7), (CHR ''8'', 8), (CHR ''9'', 9)] ch"

fun digits_value :: "int \<Rightarrow> string \<Rightarrow> int option" where
  "digits_value acc [] = Some acc"
| "digits_value acc (ch # s) =
     (case digit_value ch of None \<Rightarrow> None | Some d \<Rightarrow> digits_value (10 * acc + d) s)"

definition decimal_unsigned :: "string \<Rightarrow> rat option" where
  "decimal_unsigned s =
     (case split_on CHR ''.'' s of
        [ip] \<Rightarrow> (if ip = [] then None else map_option of_int (digits_value 0 ip))
      | [ip, fp] \<Rightarrow>
          (if ip = [] \<and> fp = [] then None
           else (case digits_value 0 ip of None \<Rightarrow> None
                 | Some i \<Rightarrow> (case digits_value 0 fp of None \<Rightarrow> None
                              | Some f \<Rightarrow> Some (of_int i + of_int f / 10 ^ length fp))))
      | _ \<Rightarrow> None)"

definition decimal :: "string \<Rightarrow> rat option" where
  "decimal s =
     (case strip s of
        [] \<Rightarrow> None
      | ch # t \<Rightarrow> (if ch = CHR ''-'' then map_option uminus (decimal_unsigned t)
                   else if ch = CHR ''+'' then decimal_unsigned t
                   else decimal_unsigned (ch # t)))"

definition decimal_float :: "string \<Rightarrow> error + rat" where
  "decimal_float s = (case decimal s of None \<Rightarrow> Inl ValueError | Some x \<Rightarrow> Inr x)"

definition decimal_int :: "string \<Rightarrow> error + int" where
  "decimal_int s =
     (case strip s of
        [] \<Rightarrow> Inl ValueError
      | ch # t \<Rightarrow>
          (let (neg, ds) = (if ch = CHR ''-'' then (True, t)
                             else if ch = CHR ''+'' then (False, t) else (False, ch # t))
           in if ds = [] then Inl ValueError
              else (case digits_value 0 ds of None \<Rightarrow> Inl ValueError
                    | Some n \<Rightarrow> Inr (if neg then - n else n))))"

definition truncate :: "rat \<Rightarrow> int" where
  "truncate x = (if x < 0 then - \<lfloor>- x\<rfloor> else \<lfloor>x\<rfloor>)"

definition tolerance_close :: "rat \<Rightarrow> rat \<Rightarrow> bool" where
  "tolerance_close x y \<longleftrightarrow> \<bar>x - y\<bar> \<le> 1 / 10 ^ 8 + 1 / 10 ^ 5 * \<bar>y\<bar>"

fun decimal_cells :: "string list \<Rightarrow> error + rat list" where
  "decimal_cells [] = Inr []"
| "decimal_cells (t # ts) =
     (case decimal t of None \<Rightarrow> Inl (LibraryError ''cell'')
      | Some x \<Rightarrow> and_then (decimal_cells ts) (\<lambda>xs. Inr (x # xs)))"

fun table_rows :: "string list \<Rightarrow> string list \<Rightarrow> error + (string \<rightharpoonup> rat) list" where
  "table_rows names [] = Inr []"
| "table_rows names (line # lines) =
     and_then (decimal_cells (split_on CHR 0x09 line)) (\<lambda>cells.
     if length cells \<noteq> length names then Inl (LibraryError ''fields'')
     else and_then (table_rows names lines) (\<lambda>rows. Inr (map_of (zip names cells) # rows)))"

definition tab_table :: "string \<Rightarrow> error + (string \<rightharpoonup> rat) list" where
  "tab_table text =
     (case filter (\<lambda>line. line \<noteq> []) (map strip (drop 8 (readlines text))) of
        [] \<Rightarrow> Inl (LibraryError ''EmptyDataError'')
      | names # lines \<Rightarrow> table_rows (split_on CHR 0x09 names) lines)"

definition decimal_library :: "(rat, rat) library" where
  "decimal_library =
     \<lparr>float_str = decimal_float, int_str = decimal_int,
      float_cell = (\<lambda>x. Inr x), int_cell = (\<lambda>x. Inr (truncate x)),
      isclose = tolerance_close, cell_isclose = (\<lambda>x y. Inr (tolerance_close x y)),
      read_table = tab_table\<rparr>"

text \<open>Texts for the examples: lines joined with newlines, cells with tabs.\<close>

definition unlines :: "string list \<Rightarrow> string" where
  "unlines ls = concat (map (\<lambda>l. l @ [CHR 0x0A]) ls)"

fun tabbed :: "string list \<Rightarrow> string" where
  "tabbed [] = []"
| "tabbed [t] = t"
| "tabbed (t # ts) = t @ CHR 0x09 # tabbed ts"

text \<open>
  A file in the layout MIDAS writes, with the \<^verbatim>\<open>%\<close> marks, and one grain; the nine
  orientation cells are 1 to 9. \<open>grains_file\<close> takes the first line and the rows, so
  that the examples can vary them.
\<close>

definition header_tail :: "string list" where
  "header_tail =
     [''%BeamCenter -20.4'', ''%BeamThickness 2000.0'', ''%GlobalPosition 0.0'',
      ''%NumPhases 1'', ''%PhaseInfo'', ''%'' @ [CHR 0x09] @ ''SpaceGroup:194 '',
      ''%'' @ [CHR 0x09] @ ''Lattice Parameter:2.9 2.9 4.6 90.0 90.0 120.0 '']"

definition grains_file :: "string \<Rightarrow> string list list \<Rightarrow> string" where
  "grains_file first_line rows =
     unlines ([first_line] @ header_tail @ [''%'' @ tabbed column_names] @ map tabbed rows)"

definition example_row :: "string list" where
  "example_row =
     [''28993'', ''1.0'', ''2.0'', ''3.0'', ''4.0'', ''5.0'', ''6.0'', ''7.0'', ''8.0'', ''9.0'',
      ''493.2'', ''123.9'', ''-107.8'', ''2.92'', ''2.93'', ''4.67'', ''90.1'', ''89.9'', ''119.9'',
      ''34.5'', ''0.02'', ''0.03'', ''56.8'', ''0.71'',
      ''11'', ''12'', ''13'', ''21'', ''22'', ''23'', ''31'', ''32'', ''33'',
      ''111'', ''112'', ''113'', ''121'', ''122'', ''123'', ''131'', ''132'', ''133'',
      ''153.0'', ''1'']"

definition example_text :: string where
  "example_text = grains_file ''%NumGrains 1'' [example_row]"

text \<open>
  The same file with the key of line 1 misspelled, and with a count of 2 declared
  for its one row.
\<close>

definition misspelled_text :: string where
  "misspelled_text = grains_file ''%NumGrain 1'' [example_row]"

definition short_text :: string where
  "short_text = grains_file ''%NumGrains 2'' [example_row]"

text \<open>
  The example file with its \<^verbatim>\<open>%\<close> marks moved: none at the line starts, one inside
  the number of line 1, one inside the grain number and one inside the first
  orientation cell.
\<close>

definition noisy_text :: string where
  "noisy_text = grains_file ''NumGrains %1'' [''28%993'' # ''1.%0'' # drop 2 example_row]"

text \<open>The same row as a \<^verbatim>\<open>Series\<close>, and the grain that \<^verbatim>\<open>from_Series\<close> makes of it.\<close>

definition example_series :: "string \<rightharpoonup> rat" where
  "example_series =
     map_of (zip column_names
       [28993, 1, 2, 3, 4, 5, 6, 7, 8, 9,
        4932 / 10, 1239 / 10, - (1078 / 10), 292 / 100, 293 / 100, 467 / 100,
        901 / 10, 899 / 10, 1199 / 10,
        345 / 10, 2 / 100, 3 / 100, 568 / 10, 71 / 100,
        11, 12, 13, 21, 22, 23, 31, 32, 33,
        111, 112, 113, 121, 122, 123, 131, 132, 133,
        153, 1])"

definition example_grain :: "(rat, rat) Grain" where
  "example_grain =
     \<lparr>ID = Some 28993,
      orientation = Some [[1, 2, 3], [4, 5, 6], [7, 8, 9]],
      location = Some [4932 / 10, 1239 / 10, - (1078 / 10)],
      latticeParameters =
        Some \<lparr>a_attr = Some (292 / 100), b_attr = Some (293 / 100), c_attr = Some (467 / 100),
              alpha_attr = Some (901 / 10), beta_attr = Some (899 / 10),
              gamma_attr = Some (1199 / 10)\<rparr>,
      diffPos = Some (345 / 10), diffOme = Some (2 / 100), diffAngle = Some (3 / 100),
      radius = Some (568 / 10), confidence = Some (71 / 100),
      strainFab = Some [[11, 12, 13], [21, 22, 23], [31, 32, 33]],
      strainKen = Some [[111, 112, 113], [121, 122, 123], [131, 132, 133]],
      rmsErrorStrain = Some 153, phaseNumber = Some 1\<rparr>"

text \<open>A lattice made with \<^verbatim>\<open>a\<close> and \<^verbatim>\<open>alpha\<close> only, and one with \<^verbatim>\<open>a\<close> only.\<close>

definition cubic :: "rat LatticeParameters" where
  "cubic = LatticeParameters_new\<lparr>a_attr := Some (409 / 100), alpha_attr := Some 90\<rparr>"

definition lengths_only :: "rat LatticeParameters" where
  "lengths_only = LatticeParameters_new\<lparr>a_attr := Some (409 / 100)\<rparr>"

text \<open>What \<^verbatim>\<open>parse\<close> makes of \<open>example_text\<close>, starting from a new \<^verbatim>\<open>Grains()\<close>.\<close>

definition example_Grains :: "(rat, rat) Grains" where
  "example_Grains =
     \<lparr>numGrains_attr = Some 1, beamCenter_attr = Some (- (204 / 10)),
      beamThickness_attr = Some 2000, globalPosition_attr = Some 0,
      numPhases_attr = Some 1, spaceGroup_attr = Some 194,
      latticeParameters_attr =
        Some \<lparr>a_attr = Some (29 / 10), b_attr = Some (29 / 10), c_attr = Some (46 / 10),
              alpha_attr = Some 90, beta_attr = Some 90, gamma_attr = Some 120\<rparr>,
      grains = [example_grain]\<rparr>"

section \<open>Properties\<close>

subsection \<open>Auxiliary facts\<close>

lemma and_then_Inr: "and_then m k = Inr y \<longleftrightarrow> (\<exists>v. m = Inr v \<and> k v = Inr y)"
  by (cases m) (simp_all add: and_then_def)

lemma unpack2_Inr: "unpack2 xs = Inr (key, value) \<longleftrightarrow> xs = [key, value]"
  by (auto simp: unpack2_def split: list.splits)

lemma seq_Inr:
  "seq m k s = (Inr u, s'') \<longleftrightarrow> (\<exists>u' s'. m s = (Inr u', s') \<and> k s' = (Inr u, s''))"
  by (auto simp: seq_def split: prod.splits sum.splits)



text \<open>The constructor stores what it is given and leaves alone what it is not given.\<close>

lemma init_kwd_keeps:
  assumes "init_kwd kwds name setter s = Inr s'"
    and "\<And>value t t'. setter value t = Inr t' \<Longrightarrow> sel t' = sel t"
  shows "sel s' = sel s"
  using assms by (auto simp: init_kwd_def split: option.splits)

lemma init_without_a:
  assumes "kwds ''a'' = None" and "LatticeParameters_init conv kwds = Inr lp"
  shows "a_attr lp = None"
proof -
  from assms(2) obtain s1 s2 s3 s4 s5 where
    1: "init_kwd kwds ''a'' (set_a conv) LatticeParameters_new = Inr s1" and
    2: "init_kwd kwds ''b'' (set_b conv) s1 = Inr s2" and
    3: "init_kwd kwds ''c'' (set_c conv) s2 = Inr s3" and
    4: "init_kwd kwds ''alpha'' (set_alpha conv) s3 = Inr s4" and
    5: "init_kwd kwds ''beta'' (set_beta conv) s4 = Inr s5" and
    6: "init_kwd kwds ''gamma'' (set_gamma conv) s5 = Inr lp"
    unfolding LatticeParameters_init_def and_then_Inr by blast
  from 1 assms(1) have "a_attr s1 = None"
    by (auto simp: init_kwd_def LatticeParameters_new_def)
  moreover have "a_attr s2 = a_attr s1"
    by (rule init_kwd_keeps [OF 2]) (auto simp: set_b_def and_then_Inr)
  moreover have "a_attr s3 = a_attr s2"
    by (rule init_kwd_keeps [OF 3]) (auto simp: set_c_def and_then_Inr)
  moreover have "a_attr s4 = a_attr s3"
    by (rule init_kwd_keeps [OF 4]) (auto simp: set_alpha_def and_then_Inr)
  moreover have "a_attr s5 = a_attr s4"
    by (rule init_kwd_keeps [OF 5]) (auto simp: set_beta_def and_then_Inr)
  moreover have "a_attr lp = a_attr s5"
    by (rule init_kwd_keeps [OF 6]) (auto simp: set_gamma_def and_then_Inr)
  ultimately show ?thesis by simp
qed

lemma init_without_alpha:
  assumes "kwds ''alpha'' = None" and "LatticeParameters_init conv kwds = Inr lp"
  shows "alpha_attr lp = None"
proof -
  from assms(2) obtain s1 s2 s3 s4 s5 where
    1: "init_kwd kwds ''a'' (set_a conv) LatticeParameters_new = Inr s1" and
    2: "init_kwd kwds ''b'' (set_b conv) s1 = Inr s2" and
    3: "init_kwd kwds ''c'' (set_c conv) s2 = Inr s3" and
    4: "init_kwd kwds ''alpha'' (set_alpha conv) s3 = Inr s4" and
    5: "init_kwd kwds ''beta'' (set_beta conv) s4 = Inr s5" and
    6: "init_kwd kwds ''gamma'' (set_gamma conv) s5 = Inr lp"
    unfolding LatticeParameters_init_def and_then_Inr by blast
  have "alpha_attr s1 = alpha_attr LatticeParameters_new"
    by (rule init_kwd_keeps [OF 1]) (auto simp: set_a_def and_then_Inr)
  then have "alpha_attr s1 = None"
    by (simp add: LatticeParameters_new_def)
  moreover have "alpha_attr s2 = alpha_attr s1"
    by (rule init_kwd_keeps [OF 2]) (auto simp: set_b_def and_then_Inr)
  moreover have "alpha_attr s3 = alpha_attr s2"
    by (rule init_kwd_keeps [OF 3]) (auto simp: set_c_def and_then_Inr)
  moreover from 4 assms(1) have "alpha_attr s4 = alpha_attr s3"
    by (simp add: init_kwd_def)
  moreover have "alpha_attr s5 = alpha_attr s4"
    by (rule init_kwd_keeps [OF 5]) (auto simp: set_beta_def and_then_Inr)
  moreover have "alpha_attr lp = alpha_attr s5"
    by (rule init_kwd_keeps [OF 6]) (auto simp: set_gamma_def and_then_Inr)
  ultimately show ?thesis by simp
qed

lemma init_all_six:
  assumes "conv a = Inr a'" "conv b = Inr b'" "conv c = Inr c'"
    "conv al = Inr al'" "conv be = Inr be'" "conv ga = Inr ga'"
  shows "LatticeParameters_init conv
           [''a'' \<mapsto> a, ''b'' \<mapsto> b, ''c'' \<mapsto> c, ''alpha'' \<mapsto> al, ''beta'' \<mapsto> be, ''gamma'' \<mapsto> ga]
         = Inr \<lparr>a_attr = Some a', b_attr = Some b', c_attr = Some c',
                alpha_attr = Some al', beta_attr = Some be', gamma_attr = Some ga'\<rparr>"
  using assms
  by (simp add: LatticeParameters_init_def init_kwd_def and_then_def LatticeParameters_new_def
      set_a_def set_b_def set_c_def set_alpha_def set_beta_def set_gamma_def)

lemma cubic_init:
  "LatticeParameters_init decimal_float [''a'' \<mapsto> ''4.09'', ''alpha'' \<mapsto> ''90''] = Inr cubic"
  by code_simp

text \<open>Reading columns that are present.\<close>

lemma getitem_present: "series name = Some v \<Longrightarrow> getitem series name = Inr v"
  by (simp add: getitem_def)

lemma getitems_present:
  "set names \<subseteq> dom series \<Longrightarrow> getitems series names = Inr (map (\<lambda>n. the (series n)) names)"
  by (induction names) (auto simp: and_then_def getitem_def)


lemma header_NumGrains_Inr:
  "header_NumGrains L fn h s = (Inr u, s') \<Longrightarrow>
     \<exists>line key value n. item h 0 = Inr line \<and> split_ws line = [key, value]
        \<and> int_str L value = Inr n \<and> s' = s\<lparr>numGrains_attr := Some n\<rparr>"
  by (auto simp: header_NumGrains_def Let_def and_then_Inr unpack2_Inr
      split: sum.splits prod.splits)


lemma header_BeamCenter_Inr:
  "header_BeamCenter L fn h s = (Inr u, s') \<Longrightarrow> \<exists>x. s' = s\<lparr>beamCenter_attr := Some x\<rparr>"
  by (auto simp: header_BeamCenter_def Let_def split: sum.splits prod.splits)


lemma header_BeamThickness_Inr:
  "header_BeamThickness L fn h s = (Inr u, s') \<Longrightarrow> \<exists>x. s' = s\<lparr>beamThickness_attr := Some x\<rparr>"
  by (auto simp: header_BeamThickness_def Let_def split: sum.splits prod.splits)


lemma header_GlobalPosition_Inr:
  "header_GlobalPosition L fn h s = (Inr u, s') \<Longrightarrow> \<exists>x. s' = s\<lparr>globalPosition_attr := Some x\<rparr>"
  by (auto simp: header_GlobalPosition_def Let_def split: sum.splits prod.splits)


lemma header_NumPhases_Inr:
  "header_NumPhases L fn h s = (Inr u, s') \<Longrightarrow> \<exists>n. s' = s\<lparr>numPhases_attr := Some n\<rparr>"
  by (auto simp: header_NumPhases_def Let_def split: sum.splits prod.splits)


lemma header_SpaceGroup_Inr:
  "header_SpaceGroup L fn h s = (Inr u, s') \<Longrightarrow> \<exists>n. s' = s\<lparr>spaceGroup_attr := Some n\<rparr>"
  by (auto simp: header_SpaceGroup_def Let_def split: sum.splits prod.splits)


lemma header_LatticeParameter_Inr:
  "header_LatticeParameter L fn h s = (Inr u, s') \<Longrightarrow>
     \<exists>lp. s' = s\<lparr>latticeParameters_attr := Some lp\<rparr>"
  by (auto simp: header_LatticeParameter_def Let_def split: sum.splits prod.splits)

lemma rows_to_grains_length: "rows_to_grains L table = Inr gs \<Longrightarrow> length gs = length table"
  by (induction table arbitrary: gs) (auto simp: and_then_Inr)


lemma read_grains_Inr:
  "read_grains L table s = (Inr u, s') \<Longrightarrow>
     \<exists>gs. rows_to_grains L table = Inr gs \<and> s' = s\<lparr>grains := gs\<rparr>"
  by (auto simp: read_grains_def split: sum.splits)

lemma verify_integrity_Inr:
  "verify_integrity s = (Inr u, s') \<longleftrightarrow> s' = s \<and> NumGrains s = Some (int (length (grains s)))"
  by (auto simp: verify_integrity_def)


text \<open>A successful \<open>populate\<close> has assigned all eight attributes.\<close>

lemma populate_Inr:
  assumes "populate L fn text self = (Inr u, s)"
  shows "\<exists>table line key value n bc bt gp np sg lp gs.
           read_table L text = Inr table
           \<and> item (map strip (take 8 (readlines text))) 0 = Inr line
           \<and> split_ws line = [key, value] \<and> int_str L value = Inr n
           \<and> rows_to_grains L table = Inr gs
           \<and> s = self\<lparr>numGrains_attr := Some n, beamCenter_attr := Some bc,
                       beamThickness_attr := Some bt, globalPosition_attr := Some gp,
                       numPhases_attr := Some np, spaceGroup_attr := Some sg,
                       latticeParameters_attr := Some lp, grains := gs\<rparr>"
proof (cases "read_table L text")
  case (Inl e)
  with assms show ?thesis by (simp add: populate_def)
next
  case (Inr table)
  let ?h = "map strip (take 8 (readlines text))"
  from assms Inr obtain s1 s2 s3 s4 s5 s6 s7 u1 u2 u3 u4 u5 u6 u7 where
    steps: "header_NumGrains L fn ?h self = (Inr u1, s1)"
      "header_BeamCenter L fn ?h s1 = (Inr u2, s2)"
      "header_BeamThickness L fn ?h s2 = (Inr u3, s3)"
      "header_GlobalPosition L fn ?h s3 = (Inr u4, s4)"
      "header_NumPhases L fn ?h s4 = (Inr u5, s5)"
      "header_SpaceGroup L fn ?h s5 = (Inr u6, s6)"
      "header_LatticeParameter L fn ?h s6 = (Inr u7, s7)"
      "read_grains L table s7 = (Inr u, s)"
    unfolding populate_def by (simp add: seq_Inr Let_def) blast
  from steps(1) obtain line key val n where
    first: "item ?h 0 = Inr line" "split_ws line = [key, val]" "int_str L val = Inr n"
      and s1: "s1 = self\<lparr>numGrains_attr := Some n\<rparr>"
    by (blast dest: header_NumGrains_Inr)
  from steps(2) obtain bc where s2: "s2 = s1\<lparr>beamCenter_attr := Some bc\<rparr>"
    by (blast dest: header_BeamCenter_Inr)
  from steps(3) obtain bt where s3: "s3 = s2\<lparr>beamThickness_attr := Some bt\<rparr>"
    by (blast dest: header_BeamThickness_Inr)
  from steps(4) obtain gp where s4: "s4 = s3\<lparr>globalPosition_attr := Some gp\<rparr>"
    by (blast dest: header_GlobalPosition_Inr)
  from steps(5) obtain np where s5: "s5 = s4\<lparr>numPhases_attr := Some np\<rparr>"
    by (blast dest: header_NumPhases_Inr)
  from steps(6) obtain sg where s6: "s6 = s5\<lparr>spaceGroup_attr := Some sg\<rparr>"
    by (blast dest: header_SpaceGroup_Inr)
  from steps(7) obtain lp where s7: "s7 = s6\<lparr>latticeParameters_attr := Some lp\<rparr>"
    by (blast dest: header_LatticeParameter_Inr)
  from steps(8) obtain gs where gs: "rows_to_grains L table = Inr gs" and s: "s = s7\<lparr>grains := gs\<rparr>"
    by (blast dest: read_grains_Inr)
  from Inr first gs show ?thesis
    unfolding s s7 s6 s5 s4 s3 s2 s1 by blast
qed




text \<open>The example files, run.\<close>

lemma parse_example:
  "parse decimal_library [''Grains.csv'' \<mapsto> example_text] ''Grains.csv'' Grains_init
     = (Inr (), example_Grains)"
  by code_simp


lemma populate_short:
  "populate decimal_library ''Grains.csv'' (remove_percent short_text) Grains_init
     = (Inr (), example_Grains\<lparr>numGrains_attr := Some 2\<rparr>)"
  by code_simp

subsection \<open>The header keys (C1)\<close>

text \<open>
  \<^bold>\<open>C1\<close> says that a file whose header has a key that is not the expected one makes
  \<^verbatim>\<open>Grains.parse\<close> raise a format error. The source makes the \<^verbatim>\<open>IOError\<close> and does not
  raise it. Here the file \<open>misspelled_text\<close>, whose first line reads \<^verbatim>\<open>NumGrain 1\<close>
  once the \<^verbatim>\<open>%\<close> is gone, is parsed to the end: \<^verbatim>\<open>parse\<close> returns normally, and the
  instance is the one that the well-spelled file gives.
\<close>

theorem misspelled_key_is_accepted:
  "map strip (take 1 (readlines (remove_percent misspelled_text))) = [''NumGrain 1'']
   \<and> parse decimal_library [''Grains.csv'' \<mapsto> misspelled_text] ''Grains.csv'' Grains_init
       = (Inr (), example_Grains)"
  by code_simp

subsection \<open>The count check (C2)\<close>

text \<open>
  \<^bold>\<open>C2\<close>: when \<^verbatim>\<open>parse\<close> returns normally, \<^verbatim>\<open>NumGrains\<close> is the integer that line 1
  of the header declares, the table has that many rows and \<^verbatim>\<open>grains\<close> has one grain
  for each of them; and when the header and all rows were read but the number of
  grains is not the one declared, \<^verbatim>\<open>parse\<close> raises the \<^verbatim>\<open>IOError\<close> whose message
  gives the declared count and then the actual one.
\<close>

theorem count_is_verified:
  "(parse L fs filename self = (Inr u, s) \<longrightarrow>
      (\<exists>content table line key value n.
          fs filename = Some content
          \<and> read_table L (remove_percent content) = Inr table
          \<and> item (map strip (take 8 (readlines (remove_percent content)))) 0 = Inr line
          \<and> split_ws line = [key, value] \<and> int_str L value = Inr n
          \<and> NumGrains s = Some n \<and> int (length (grains s)) = n
          \<and> length (grains s) = length table))
   \<and> (fs filename = Some content
        \<and> populate L filename (remove_percent content) self = (Inr u, s)
        \<and> NumGrains s \<noteq> Some (int (length (grains s))) \<longrightarrow>
      (\<exists>n. NumGrains s = Some n
         \<and> parse L fs filename self
             = (Inl (IOError (str_int n @ '' grains were expected, but only ''
                               @ str_int (int (length (grains s))) @ '' were read.'')), s)))"
proof (intro conjI impI)
  assume ok: "parse L fs filename self = (Inr u, s)"
  then obtain content where content: "fs filename = Some content"
    by (auto simp: parse_def split: option.splits)
  with ok obtain s' where populated: "populate L filename (remove_percent content) self = (Inr (), s')"
    and verified: "verify_integrity s' = (Inr u, s)"
    by (auto simp: parse_def parse_text_def seq_Inr)
  from verified have same: "s' = s" and count: "NumGrains s' = Some (int (length (grains s')))"
    by (simp_all add: verify_integrity_Inr)
  from populate_Inr [OF populated] obtain table line key val n where
    "read_table L (remove_percent content) = Inr table"
    "item (map strip (take 8 (readlines (remove_percent content)))) 0 = Inr line"
    "split_ws line = [key, val]" "int_str L val = Inr n"
    "NumGrains s' = Some n" "length (grains s') = length table"
    by (auto simp: NumGrains_def dest: rows_to_grains_length)
  with content count show "\<exists>content table line key value n.
          fs filename = Some content
          \<and> read_table L (remove_percent content) = Inr table
          \<and> item (map strip (take 8 (readlines (remove_percent content)))) 0 = Inr line
          \<and> split_ws line = [key, value] \<and> int_str L value = Inr n
          \<and> NumGrains s = Some n \<and> int (length (grains s)) = n
          \<and> length (grains s) = length table"
    unfolding same by auto
next
  assume a: "fs filename = Some content
        \<and> populate L filename (remove_percent content) self = (Inr u, s)
        \<and> NumGrains s \<noteq> Some (int (length (grains s)))"
  then obtain n where n: "NumGrains s = Some n"
    by (auto simp: NumGrains_def dest!: populate_Inr)
  from a have "parse L fs filename self
      = (Inl (IOError (count_message (NumGrains s) (length (grains s)))), s)"
    by (auto simp: parse_def parse_text_def seq_def verify_integrity_def)
  with n show "\<exists>n. NumGrains s = Some n
         \<and> parse L fs filename self
             = (Inl (IOError (str_int n @ '' grains were expected, but only ''
                               @ str_int (int (length (grains s))) @ '' were read.'')), s)"
    by (simp add: count_message_def format_count_def)
qed

text \<open>
  On the example file the count is 1 and one grain is read; on the file that declares
  2 for its one row the message names 2 and 1.
\<close>

theorem count_is_verified_witness:
  "parse decimal_library [''Grains.csv'' \<mapsto> example_text] ''Grains.csv'' Grains_init
     = (Inr (), example_Grains)
   \<and> NumGrains example_Grains = Some 1 \<and> length (grains example_Grains) = 1
   \<and> [''Grains.csv'' \<mapsto> short_text] ''Grains.csv'' = Some short_text
   \<and> populate decimal_library ''Grains.csv'' (remove_percent short_text) Grains_init
       = (Inr (), example_Grains\<lparr>numGrains_attr := Some 2\<rparr>)
   \<and> parse decimal_library [''Grains.csv'' \<mapsto> short_text] ''Grains.csv'' Grains_init
       = (Inl (IOError ''2 grains were expected, but only 1 were read.''),
          example_Grains\<lparr>numGrains_attr := Some 2\<rparr>)"
proof -
  let ?short = "example_Grains\<lparr>numGrains_attr := Some 2\<rparr>"
  have counts: "length (grains example_Grains) = 1" "length (grains ?short) = 1"
    "NumGrains ?short = Some 2"
    by (simp_all add: example_Grains_def NumGrains_def)
  have digits: "str_int 2 = ''2''" "str_int 1 = ''1''"
    by (simp_all add: str_int_def digit_char_def)
  from count_is_verified
    [of decimal_library "[''Grains.csv'' \<mapsto> example_text]" "''Grains.csv''" Grains_init "()"
      example_Grains]
    parse_example
  have good: "NumGrains example_Grains = Some 1"
    using counts by auto
  from count_is_verified
    [of decimal_library "[''Grains.csv'' \<mapsto> short_text]" "''Grains.csv''" Grains_init "()"
      ?short short_text]
    populate_short counts
  have bad: "parse decimal_library [''Grains.csv'' \<mapsto> short_text] ''Grains.csv'' Grains_init
       = (Inl (IOError ''2 grains were expected, but only 1 were read.''), ?short)"
    by (simp add: digits)
  from good bad parse_example populate_short counts show ?thesis by simp
qed

subsection \<open>The instance after a failed parse (C3)\<close>




subsection \<open>Equality of grains (C4)\<close>

text \<open>
  \<^bold>\<open>C4\<close> says that two grains are equal exactly when every attribute matches, the
  confidence and the RMS strain error among them. \<^verbatim>\<open>Grain_.__eq__\<close> compares eleven
  of the thirteen attributes and leaves these two out: the grain of the example row
  and the grain of the same row with confidence 0.2 for 0.71 and RMS strain error 7
  for 153 (neither pair is close) compare equal.
\<close>

theorem Grain_eq_skips_confidence:
  "from_Series decimal_library example_series Grain_init = Inr example_grain
   \<and> from_Series decimal_library (example_series(''Confidence'' \<mapsto> 1 / 5, ''RMSErrorStrain'' \<mapsto> 7))
        Grain_init
      = Inr (example_grain\<lparr>confidence := Some (1 / 5), rmsErrorStrain := Some 7\<rparr>)
   \<and> cell_isclose decimal_library (71 / 100) (1 / 5) = Inr False
   \<and> cell_isclose decimal_library 153 7 = Inr False
   \<and> Grain_eq decimal_library example_grain
        (example_grain\<lparr>confidence := Some (1 / 5), rmsErrorStrain := Some 7\<rparr>) = Inr True"
  by code_simp

subsection \<open>Defaults of the lattice parameters (C5, C10)\<close>

text \<open>
  \<^bold>\<open>C5\<close>: while \<^verbatim>\<open>b\<close> is unset, reading it gives what reading \<^verbatim>\<open>a\<close> gives at that
  moment, and so for \<^verbatim>\<open>c\<close>; \<^verbatim>\<open>beta\<close> and \<^verbatim>\<open>gamma\<close> follow \<^verbatim>\<open>alpha\<close> in the same way.
  In particular, after \<^verbatim>\<open>a\<close> (or \<^verbatim>\<open>alpha\<close>) is set to a new value, the reads of the
  attributes still unset give the new value.
\<close>

theorem unset_reads_follow_source:
  assumes "conv value = Inr v"
  shows "(b_attr self = None \<longrightarrow> get_b self = get_a self)
       \<and> (c_attr self = None \<longrightarrow> get_c self = get_a self)
       \<and> (beta_attr self = None \<longrightarrow> get_beta self = get_alpha self)
       \<and> (gamma_attr self = None \<longrightarrow> get_gamma self = get_alpha self)
       \<and> (\<exists>self'. set_a conv value self = Inr self' \<and> get_a self' = Some v
              \<and> (b_attr self = None \<longrightarrow> get_b self' = Some v)
              \<and> (c_attr self = None \<longrightarrow> get_c self' = Some v))
       \<and> (\<exists>self'. set_alpha conv value self = Inr self' \<and> get_alpha self' = Some v
              \<and> (beta_attr self = None \<longrightarrow> get_beta self' = Some v)
              \<and> (gamma_attr self = None \<longrightarrow> get_gamma self' = Some v))"
  using assms
  by (simp add: get_a_def get_b_def get_c_def get_alpha_def get_beta_def get_gamma_def
      set_a_def set_alpha_def and_then_def)

text \<open>
  A lattice made with \<^verbatim>\<open>a = 4.09\<close> and \<^verbatim>\<open>alpha = 90\<close> reads \<^verbatim>\<open>b\<close> as 4.09, and as 3.3
  after \<^verbatim>\<open>a\<close> is set to 3.3.
\<close>

theorem unset_reads_follow_source_witness:
  "decimal_float ''3.3'' = Inr (33 / 10)
   \<and> LatticeParameters_init decimal_float [''a'' \<mapsto> ''4.09'', ''alpha'' \<mapsto> ''90''] = Inr cubic
   \<and> b_attr cubic = None \<and> get_b cubic = Some (409 / 100)
   \<and> (\<exists>self'. set_a decimal_float ''3.3'' cubic = Inr self' \<and> get_a self' = Some (33 / 10)
          \<and> get_b self' = Some (33 / 10) \<and> get_c self' = Some (33 / 10))
   \<and> (\<exists>self'. set_alpha decimal_float ''3.3'' cubic = Inr self'
          \<and> get_beta self' = Some (33 / 10) \<and> get_gamma self' = Some (33 / 10))"
proof -
  have conv: "decimal_float ''3.3'' = Inr (33 / 10)"
    by code_simp
  have unset: "b_attr cubic = None" "c_attr cubic = None"
    "beta_attr cubic = None" "gamma_attr cubic = None"
    by (simp_all add: cubic_def LatticeParameters_new_def)
  have now: "get_b cubic = Some (409 / 100)"
    by (simp add: cubic_def LatticeParameters_new_def get_b_def get_a_def)
  from unset_reads_follow_source [of decimal_float "''3.3''" "33 / 10" cubic]
    unset conv now cubic_init
  show ?thesis by auto
qed

text \<open>
  \<^bold>\<open>C10\<close>: on an instance whose \<^verbatim>\<open>a\<close> was never set, \<^verbatim>\<open>a\<close> reads \<^verbatim>\<open>None\<close> (the read
  is a value, not an exception), and so do \<^verbatim>\<open>b\<close> and \<^verbatim>\<open>c\<close> while they are unset; the
  same for \<^verbatim>\<open>alpha\<close> with \<^verbatim>\<open>beta\<close> and \<^verbatim>\<open>gamma\<close>. An instance made without the keyword
  \<^verbatim>\<open>a\<close> (or \<^verbatim>\<open>alpha\<close>) is such an instance.
\<close>

theorem never_set_reads_None:
  "(a_attr self = None \<longrightarrow>
      get_a self = None \<and> (b_attr self = None \<longrightarrow> get_b self = None)
                        \<and> (c_attr self = None \<longrightarrow> get_c self = None))
   \<and> (alpha_attr self = None \<longrightarrow>
      get_alpha self = None \<and> (beta_attr self = None \<longrightarrow> get_beta self = None)
                            \<and> (gamma_attr self = None \<longrightarrow> get_gamma self = None))
   \<and> (kwds ''a'' = None \<and> LatticeParameters_init conv kwds = Inr self \<longrightarrow> a_attr self = None)
   \<and> (kwds ''alpha'' = None \<and> LatticeParameters_init conv kwds = Inr self \<longrightarrow> alpha_attr self = None)"
  using init_without_a [of kwds conv self] init_without_alpha [of kwds conv self]
  by (simp add: get_a_def get_b_def get_c_def get_alpha_def get_beta_def get_gamma_def)

text \<open>The instance made with no keyword at all reads \<^verbatim>\<open>None\<close> six times.\<close>

theorem never_set_reads_None_witness:
  "LatticeParameters_init decimal_float Map.empty = Inr (LatticeParameters_new :: rat LatticeParameters)
   \<and> a_attr (LatticeParameters_new :: rat LatticeParameters) = None
   \<and> alpha_attr (LatticeParameters_new :: rat LatticeParameters) = None
   \<and> get_a (LatticeParameters_new :: rat LatticeParameters) = None
   \<and> get_b (LatticeParameters_new :: rat LatticeParameters) = None
   \<and> get_c (LatticeParameters_new :: rat LatticeParameters) = None
   \<and> get_alpha (LatticeParameters_new :: rat LatticeParameters) = None
   \<and> get_beta (LatticeParameters_new :: rat LatticeParameters) = None
   \<and> get_gamma (LatticeParameters_new :: rat LatticeParameters) = None"
proof -
  have init: "LatticeParameters_init decimal_float Map.empty
                = Inr (LatticeParameters_new :: rat LatticeParameters)"
    by (simp add: LatticeParameters_init_def init_kwd_def and_then_def)
  have unset: "a_attr (LatticeParameters_new :: rat LatticeParameters) = None"
    "b_attr (LatticeParameters_new :: rat LatticeParameters) = None"
    "c_attr (LatticeParameters_new :: rat LatticeParameters) = None"
    "alpha_attr (LatticeParameters_new :: rat LatticeParameters) = None"
    "beta_attr (LatticeParameters_new :: rat LatticeParameters) = None"
    "gamma_attr (LatticeParameters_new :: rat LatticeParameters) = None"
    by (simp_all add: LatticeParameters_new_def)
  from never_set_reads_None [of "LatticeParameters_new :: rat LatticeParameters" Map.empty decimal_float]
    init unset
  show ?thesis by simp
qed

subsection \<open>The reshape of the matrices (C6)\<close>

text \<open>
  \<^bold>\<open>C6\<close>: for a row that has the forty-four columns, and whose lattice cells and
  phase cell \<^verbatim>\<open>float\<close> and \<^verbatim>\<open>int\<close> accept, \<^verbatim>\<open>from_Series\<close> returns a grain whose
  orientation is the matrix with rows \<^verbatim>\<open>O11 O12 O13\<close>, \<^verbatim>\<open>O21 O22 O23\<close>,
  \<^verbatim>\<open>O31 O32 O33\<close>, and whose two strain tensors are filled from the \<^verbatim>\<open>eFab\<close> and
  \<^verbatim>\<open>eKen\<close> columns in the same row-major order.
\<close>

theorem from_Series_row_major:
  assumes columns: "set column_names \<subseteq> dom series"
    and lattice: "\<forall>name \<in> set [''a'', ''b'', ''c'', ''alpha'', ''beta'', ''gamma''].
                    \<exists>v x. series name = Some v \<and> float_cell L v = Inr x"
    and phase: "\<exists>v n. series ''PhaseNr'' = Some v \<and> int_cell L v = Inr n"
  shows "\<exists>g orient fab ken. from_Series L series self = Inr g
           \<and> orientation g = Some orient
           \<and> map (map Some) orient
               = [[series ''O11'', series ''O12'', series ''O13''],
                  [series ''O21'', series ''O22'', series ''O23''],
                  [series ''O31'', series ''O32'', series ''O33'']]
           \<and> strainFab g = Some fab
           \<and> map (map Some) fab
               = [[series ''eFab11'', series ''eFab12'', series ''eFab13''],
                  [series ''eFab21'', series ''eFab22'', series ''eFab23''],
                  [series ''eFab31'', series ''eFab32'', series ''eFab33'']]
           \<and> strainKen g = Some ken
           \<and> map (map Some) ken
               = [[series ''eKen11'', series ''eKen12'', series ''eKen13''],
                  [series ''eKen21'', series ''eKen22'', series ''eKen23''],
                  [series ''eKen31'', series ''eKen32'', series ''eKen33'']]"
proof -
  have present: "\<exists>v. series name = Some v" if "name \<in> set column_names" for name
    using columns that by (auto simp: dom_def)
  have item: "getitem series name = Inr (the (series name))" if "name \<in> set column_names" for name
    using present [OF that] by (auto simp: getitem_def)
  have some: "Some (the (series name)) = series name" if "name \<in> set column_names" for name
    using present [OF that] by auto
  have items: "getitems series names = Inr (map (\<lambda>n. the (series n)) names)"
    if "set names \<subseteq> set column_names" for names
    using that columns by (intro getitems_present) auto
  from lattice obtain a b c al be ga a' b' c' al' be' ga' where
    cells: "series ''a'' = Some a" "series ''b'' = Some b" "series ''c'' = Some c"
      "series ''alpha'' = Some al" "series ''beta'' = Some be" "series ''gamma'' = Some ga" and
    floats: "float_cell L a = Inr a'" "float_cell L b = Inr b'" "float_cell L c = Inr c'"
      "float_cell L al = Inr al'" "float_cell L be = Inr be'" "float_cell L ga = Inr ga'"
    by auto
  from phase obtain pnr n where pnr: "series ''PhaseNr'' = Some pnr" "int_cell L pnr = Inr n"
    by auto
  have orient: "getitems series [''O11'', ''O12'', ''O13'', ''O21'', ''O22'', ''O23'',
                                 ''O31'', ''O32'', ''O33'']
                = Inr (map (\<lambda>n. the (series n)) [''O11'', ''O12'', ''O13'', ''O21'', ''O22'', ''O23'',
                                 ''O31'', ''O32'', ''O33''])"
    by (rule items) (simp add: column_names_def)
  have loc: "getitems series [''X'', ''Y'', ''Z'']
                = Inr (map (\<lambda>n. the (series n)) [''X'', ''Y'', ''Z''])"
    by (rule items) (simp add: column_names_def)
  have fab: "getitems series [''eFab11'', ''eFab12'', ''eFab13'', ''eFab21'', ''eFab22'', ''eFab23'',
                                 ''eFab31'', ''eFab32'', ''eFab33'']
                = Inr (map (\<lambda>n. the (series n)) [''eFab11'', ''eFab12'', ''eFab13'', ''eFab21'', ''eFab22'', ''eFab23'',
                                 ''eFab31'', ''eFab32'', ''eFab33''])"
    by (rule items) (simp add: column_names_def)
  have ken: "getitems series [''eKen11'', ''eKen12'', ''eKen13'', ''eKen21'', ''eKen22'', ''eKen23'',
                                 ''eKen31'', ''eKen32'', ''eKen33'']
                = Inr (map (\<lambda>n. the (series n)) [''eKen11'', ''eKen12'', ''eKen13'', ''eKen21'', ''eKen22'', ''eKen23'',
                                 ''eKen31'', ''eKen32'', ''eKen33''])"
    by (rule items) (simp add: column_names_def)
  have scalars: "getitem series ''GrainID'' = Inr (the (series ''GrainID''))"
    "getitem series ''DiffPos'' = Inr (the (series ''DiffPos''))"
    "getitem series ''DiffOme'' = Inr (the (series ''DiffOme''))"
    "getitem series ''DiffAngle'' = Inr (the (series ''DiffAngle''))"
    "getitem series ''GrainRadius'' = Inr (the (series ''GrainRadius''))"
    "getitem series ''Confidence'' = Inr (the (series ''Confidence''))"
    "getitem series ''RMSErrorStrain'' = Inr (the (series ''RMSErrorStrain''))"
    by (rule item, simp add: column_names_def)+
  have names: "Some (the (series ''O11'')) = series ''O11''" "Some (the (series ''O12'')) = series ''O12''"
    "Some (the (series ''O13'')) = series ''O13''" "Some (the (series ''O21'')) = series ''O21''"
    "Some (the (series ''O22'')) = series ''O22''" "Some (the (series ''O23'')) = series ''O23''"
    "Some (the (series ''O31'')) = series ''O31''" "Some (the (series ''O32'')) = series ''O32''"
    "Some (the (series ''O33'')) = series ''O33''"
    "Some (the (series ''eFab11'')) = series ''eFab11''" "Some (the (series ''eFab12'')) = series ''eFab12''"
    "Some (the (series ''eFab13'')) = series ''eFab13''" "Some (the (series ''eFab21'')) = series ''eFab21''"
    "Some (the (series ''eFab22'')) = series ''eFab22''" "Some (the (series ''eFab23'')) = series ''eFab23''"
    "Some (the (series ''eFab31'')) = series ''eFab31''" "Some (the (series ''eFab32'')) = series ''eFab32''"
    "Some (the (series ''eFab33'')) = series ''eFab33''"
    "Some (the (series ''eKen11'')) = series ''eKen11''" "Some (the (series ''eKen12'')) = series ''eKen12''"
    "Some (the (series ''eKen13'')) = series ''eKen13''" "Some (the (series ''eKen21'')) = series ''eKen21''"
    "Some (the (series ''eKen22'')) = series ''eKen22''" "Some (the (series ''eKen23'')) = series ''eKen23''"
    "Some (the (series ''eKen31'')) = series ''eKen31''" "Some (the (series ''eKen32'')) = series ''eKen32''"
    "Some (the (series ''eKen33'')) = series ''eKen33''"
    by (rule some, simp add: column_names_def)+
  show ?thesis
    unfolding from_Series_def orient loc fab ken scalars
    by (simp add: and_then_def getitem_present cells pnr init_all_six [of "float_cell L" a a' b b' c c' al al' be be' ga ga', OF floats]
        reshape_def numeral_3_eq_3 names)
qed

text \<open>
  For the row with \<^verbatim>\<open>O11 = 1\<close>, ..., \<^verbatim>\<open>O33 = 9\<close> the item \<^verbatim>\<open>[0][1]\<close> of the orientation
  is 2 (and \<^verbatim>\<open>[1][0]\<close> is 4).
\<close>

theorem from_Series_row_major_witness:
  "set column_names \<subseteq> dom example_series
   \<and> example_series ''a'' = Some (292 / 100)
   \<and> float_cell decimal_library (292 / 100) = Inr (292 / 100)
   \<and> example_series ''PhaseNr'' = Some 1 \<and> int_cell decimal_library 1 = Inr 1
   \<and> example_series ''O11'' = Some 1 \<and> example_series ''O12'' = Some 2
   \<and> example_series ''O33'' = Some 9
   \<and> (\<exists>g orient. from_Series decimal_library example_series Grain_init = Inr g
         \<and> orientation g = Some orient \<and> orient ! 0 ! 1 = 2 \<and> orient ! 1 ! 0 = 4)"
proof -
  have cells: "example_series ''O11'' = Some 1" "example_series ''O12'' = Some 2"
    "example_series ''O13'' = Some 3" "example_series ''O21'' = Some 4"
    "example_series ''O22'' = Some 5" "example_series ''O23'' = Some 6"
    "example_series ''O31'' = Some 7" "example_series ''O32'' = Some 8"
    "example_series ''O33'' = Some 9"
    by (simp_all add: example_series_def column_names_def)
  have columns: "set column_names \<subseteq> dom example_series"
    by (simp add: example_series_def column_names_def)
  have float: "float_cell decimal_library v = Inr v" for v
    by (simp add: decimal_library_def)
  have lattice: "\<forall>name \<in> set [''a'', ''b'', ''c'', ''alpha'', ''beta'', ''gamma''].
         \<exists>v x. example_series name = Some v \<and> float_cell decimal_library v = Inr x"
  proof
    fix name :: string
    assume "name \<in> set [''a'', ''b'', ''c'', ''alpha'', ''beta'', ''gamma'']"
    then have "name \<in> set column_names"
      by (auto simp: column_names_def)
    with columns obtain v where "example_series name = Some v"
      by (meson domD subsetD)
    with float show "\<exists>v x. example_series name = Some v \<and> float_cell decimal_library v = Inr x"
      by blast
  qed
  have a: "example_series ''a'' = Some (292 / 100)"
    by (simp add: example_series_def column_names_def)
  have pnr: "example_series ''PhaseNr'' = Some 1"
    by (simp add: example_series_def column_names_def)
  have int: "int_cell decimal_library 1 = Inr 1"
    by (simp add: decimal_library_def truncate_def)
  from pnr int have phase:
    "\<exists>v n. example_series ''PhaseNr'' = Some v \<and> int_cell decimal_library v = Inr n"
    by blast
  from from_Series_row_major [OF columns lattice phase, of Grain_init]
  obtain g orient where g: "from_Series decimal_library example_series Grain_init = Inr g"
    "orientation g = Some orient"
    "map (map Some) orient
       = [[example_series ''O11'', example_series ''O12'', example_series ''O13''],
          [example_series ''O21'', example_series ''O22'', example_series ''O23''],
          [example_series ''O31'', example_series ''O32'', example_series ''O33'']]"
    by (elim exE conjE) (erule that, assumption+)
  from g(3) have "orient = [[1, 2, 3], [4, 5, 6], [7, 8, 9]]"
    unfolding cells by (auto simp: map_eq_Cons_conv)
  with g(1,2) have "\<exists>g orient. from_Series decimal_library example_series Grain_init = Inr g
         \<and> orientation g = Some orient \<and> orient ! 0 ! 1 = 2 \<and> orient ! 1 ! 0 = 4"
    by auto
  with columns a float [of "292 / 100"] pnr int cells show ?thesis
    by blast
qed

subsection \<open>The percent signs (C7)\<close>

text \<open>
  \<^bold>\<open>C7\<close>: \<^verbatim>\<open>parse\<close> of a file is \<^verbatim>\<open>parse\<close> of the file with every \<^verbatim>\<open>%\<close> removed, wherever
  the \<^verbatim>\<open>%\<close> stood: all that \<^verbatim>\<open>parse\<close> does after reading the file, the table and the
  header alike, it does on the text in which no \<^verbatim>\<open>%\<close> is left.
\<close>

theorem parse_strips_percent:
  "parse L (fs(filename \<mapsto> content)) filename self
     = parse L (fs(filename \<mapsto> remove_percent content)) filename self
   \<and> parse L (fs(filename \<mapsto> content)) filename self
     = parse_text L filename (remove_percent content) self
   \<and> CHR ''%'' \<notin> set (remove_percent content)"
  by (simp add: parse_def remove_percent_def)

text \<open>
  The file \<open>noisy_text\<close> has a \<^verbatim>\<open>%\<close> inside the number of line 1 and inside two cells
  of the row; it is parsed to what the example file is parsed to.
\<close>

theorem parse_strips_percent_witness:
  "noisy_text \<noteq> example_text
   \<and> remove_percent noisy_text = remove_percent example_text
   \<and> parse decimal_library [''Grains.csv'' \<mapsto> noisy_text] ''Grains.csv'' Grains_init
       = (Inr (), example_Grains)"
proof -
  have differ: "noisy_text \<noteq> example_text"
    by code_simp
  have same: "remove_percent noisy_text = remove_percent example_text"
    by code_simp
  have "parse decimal_library [''Grains.csv'' \<mapsto> noisy_text] ''Grains.csv'' Grains_init
      = parse_text decimal_library ''Grains.csv'' (remove_percent noisy_text) Grains_init"
    by (rule parse_strips_percent
        [of decimal_library Map.empty "''Grains.csv''" noisy_text Grains_init,
          THEN conjunct2, THEN conjunct1])
  also have "\<dots>
      = parse_text decimal_library ''Grains.csv'' (remove_percent example_text) Grains_init"
    by (simp only: same)
  also have "\<dots> = parse decimal_library [''Grains.csv'' \<mapsto> example_text] ''Grains.csv'' Grains_init"
    by (rule parse_strips_percent
        [of decimal_library Map.empty "''Grains.csv''" example_text Grains_init,
          THEN conjunct2, THEN conjunct1, symmetric])
  also note parse_example
  finally show ?thesis
    using differ same by simp
qed

subsection \<open>A file that does not exist (C8)\<close>

text \<open>
  \<^bold>\<open>C8\<close>: for a path that names no file, \<^verbatim>\<open>parse\<close> raises the \<^verbatim>\<open>IOError\<close> that says
  the file was not found; this holds whatever the library functions do, since none
  is called, and the instance is left as it was.
\<close>

theorem parse_not_found:
  assumes "fs filename = None"
  shows "parse L fs filename self = (Inl (IOError (filename @ '' was not found.'')), self)"
  using assms by (simp add: parse_def)

text \<open>With no file at all, an instance that is already filled keeps every attribute.\<close>

theorem parse_not_found_witness:
  "Map.empty ''Grains.csv'' = None
   \<and> parse decimal_library Map.empty ''Grains.csv'' example_Grains
       = (Inl (IOError ''Grains.csv was not found.''), example_Grains)"
  using parse_not_found [of Map.empty "''Grains.csv''" decimal_library example_Grains]
  by simp

subsection \<open>Equality of lattice parameters (C9)\<close>

text \<open>
  \<^bold>\<open>C9\<close> says that comparing lattice parameters returns false when a value cannot
  be resolved. The source hands the unresolved value, \<^verbatim>\<open>None\<close>, to \<^verbatim>\<open>numpy.isclose\<close>,
  which raises: two instances with nothing set do not compare to false, the
  comparison ends in \<^verbatim>\<open>TypeError\<close>.
\<close>

theorem unresolved_eq_raises:
  "LatticeParameters_eq tolerance_close
     (LatticeParameters_new :: rat LatticeParameters) LatticeParameters_new = Inl TypeError
   \<and> LatticeParameters_eq tolerance_close
     (LatticeParameters_new :: rat LatticeParameters) LatticeParameters_new \<noteq> Inr False"
  by (simp add: LatticeParameters_eq_def py_and_def np_isclose_def get_a_def
      LatticeParameters_new_def)

text \<open>
  \<^bold>\<open>C9\<close>, as the code has it. When all six values resolve on both sides, the result
  is the conjunction of the six \<^verbatim>\<open>isclose\<close> tests on the resolved values. When \<^verbatim>\<open>a\<close>
  does not resolve on one side, the comparison raises \<^verbatim>\<open>TypeError\<close>. When the three
  lengths resolve on both sides and \<^verbatim>\<open>alpha\<close> does not resolve on one, the comparison
  returns false if one of the length tests fails and raises \<^verbatim>\<open>TypeError\<close> otherwise.
\<close>

theorem LatticeParameters_eq_cases:
  "(get_a self = Some a1 \<and> get_b self = Some b1 \<and> get_c self = Some c1
      \<and> get_alpha self = Some al1 \<and> get_beta self = Some be1 \<and> get_gamma self = Some ga1
      \<and> get_a rhs = Some a2 \<and> get_b rhs = Some b2 \<and> get_c rhs = Some c2
      \<and> get_alpha rhs = Some al2 \<and> get_beta rhs = Some be2 \<and> get_gamma rhs = Some ga2
    \<longrightarrow> LatticeParameters_eq close self rhs
          = Inr (close a1 a2 \<and> close b1 b2 \<and> close c1 c2
                 \<and> close al1 al2 \<and> close be1 be2 \<and> close ga1 ga2))
   \<and> (get_a self = None \<or> get_a rhs = None
    \<longrightarrow> LatticeParameters_eq close self rhs = Inl TypeError)
   \<and> (get_a self = Some a1 \<and> get_b self = Some b1 \<and> get_c self = Some c1
      \<and> get_a rhs = Some a2 \<and> get_b rhs = Some b2 \<and> get_c rhs = Some c2
      \<and> (get_alpha self = None \<or> get_alpha rhs = None)
    \<longrightarrow> LatticeParameters_eq close self rhs
          = (if close a1 a2 \<and> close b1 b2 \<and> close c1 c2 then Inl TypeError else Inr False))"
  by (auto simp: LatticeParameters_eq_def py_and_def np_isclose_def split: option.splits)

text \<open>The three cases on lattices with both, one and none of \<^verbatim>\<open>a\<close> and \<^verbatim>\<open>alpha\<close> set.\<close>

theorem LatticeParameters_eq_cases_witness:
  "LatticeParameters_eq tolerance_close cubic cubic = Inr True
   \<and> LatticeParameters_eq tolerance_close cubic (cubic\<lparr>c_attr := Some 5\<rparr>) = Inr False
   \<and> LatticeParameters_eq tolerance_close LatticeParameters_new cubic = Inl TypeError
   \<and> LatticeParameters_eq tolerance_close lengths_only cubic = Inl TypeError
   \<and> LatticeParameters_eq tolerance_close lengths_only (cubic\<lparr>c_attr := Some 5\<rparr>) = Inr False"
proof -
  let ?a = "409 / 100 :: rat"
  let ?long = "cubic\<lparr>c_attr := Some 5\<rparr>"
  have reads: "get_a cubic = Some ?a" "get_b cubic = Some ?a" "get_c cubic = Some ?a"
    "get_alpha cubic = Some 90" "get_beta cubic = Some 90" "get_gamma cubic = Some 90"
    "get_a ?long = Some ?a" "get_b ?long = Some ?a" "get_c ?long = Some 5"
    "get_alpha ?long = Some 90" "get_beta ?long = Some 90" "get_gamma ?long = Some 90"
    "get_a lengths_only = Some ?a" "get_b lengths_only = Some ?a" "get_c lengths_only = Some ?a"
    "get_alpha lengths_only = None"
    "get_a (LatticeParameters_new :: rat LatticeParameters) = None"
    by (simp_all add: cubic_def lengths_only_def LatticeParameters_new_def
        get_a_def get_b_def get_c_def get_alpha_def get_beta_def get_gamma_def)
  have close: "tolerance_close ?a ?a" "tolerance_close 90 90" "\<not> tolerance_close ?a 5"
    by (simp_all add: tolerance_close_def)
  note eq_cases = LatticeParameters_eq_cases [where close = tolerance_close]
  have 1: "LatticeParameters_eq tolerance_close cubic cubic = Inr True"
    using eq_cases [of cubic ?a ?a ?a 90 90 90 cubic ?a ?a ?a 90 90 90] reads close by simp
  have 2: "LatticeParameters_eq tolerance_close cubic ?long = Inr False"
    using eq_cases [of cubic ?a ?a ?a 90 90 90 ?long ?a ?a 5 90 90 90] reads close by simp
  have 3: "LatticeParameters_eq tolerance_close LatticeParameters_new cubic = Inl TypeError"
    using eq_cases [of LatticeParameters_new _ _ _ _ _ _ cubic] reads by simp
  have 4: "LatticeParameters_eq tolerance_close lengths_only cubic = Inl TypeError"
    using eq_cases [of lengths_only ?a ?a ?a _ _ _ cubic ?a ?a ?a] reads close by simp
  have 5: "LatticeParameters_eq tolerance_close lengths_only ?long = Inr False"
    using eq_cases [of lengths_only ?a ?a ?a _ _ _ ?long ?a ?a 5] reads close by simp
  from 1 2 3 4 5 show ?thesis by simp
qed

end
